theory Spec2Isabelle
  imports Main
begin

section \<open>ZenExtension: the activation and orchestration singleton\<close>

text \<open>
  A shallow embedding of \<^verbatim>\<open>src/services/ZenExtension.ts\<close>. The class has static fields
  only, so its state is one record. Everything the class calls in other modules or in the
  editor host (\<^verbatim>\<open>runServer\<close>, \<^verbatim>\<open>refreshUIComponents\<close>, \<^verbatim>\<open>vscode.window\<close>, \<^verbatim>\<open>dispose\<close>, ...)
  is an external call: it is appended to the history of calls, and the environment, a
  parameter of every operation, decides from the history whether the call throws (an awaited
  promise that rejects), what it returns, and whether it writes \<^verbatim>\<open>lsClient.isZenMLReady\<close>
  meanwhile. \<^verbatim>\<open>console.log\<close> writes to a console kept apart from the calls and never throws.
  Each handler runs to completion: two handlers are never interleaved at an \<^verbatim>\<open>await\<close>.
\<close>

subsection \<open>Data\<close>

text \<open>A JavaScript value that is a string or \<^verbatim>\<open>undefined\<close> (\<open>None\<close>).\<close>

type_synonym js_string = "string option"

text \<open>\<^verbatim>\<open>IInterpreterDetails\<close>: the optional array \<^verbatim>\<open>path\<close> is the only member the class reads.\<close>

record IInterpreterDetails =
  path :: "string list option"

text \<open>A configuration-change event, by the sections it affects.\<close>

datatype ConfigurationChangeEvent = ConfigurationChangeEvent "string list"

datatype TreeDataProvider =
  ServerDataProvider | StackDataProvider | PipelineDataProvider | EnvironmentDataProvider

datatype Disposable = TreeView string TreeDataProvider | Disposable nat

datatype LogOutputChannel = LogOutputChannel string

datatype registry = registerServerCommands | registerStackCommands | registerPipelineCommands

record LSClient =
  isZenMLReady :: bool
  interpreterSelectionInProgress :: bool

record ExtensionContext =
  subscriptions :: "Disposable list"

text \<open>The calls that leave the class, with their arguments.\<close>

datatype call =
    GetInterpreterDetails
  | UpdateDefaultPythonInterpreterPath js_string
  | UpdateWorkspaceInterpreterSettings js_string
  | TraceLog string
  | InitializePython "Disposable list"
  | RunServer string string LogOutputChannel LSClient
  | StatusBarGetInstance
  | CreateTreeView string TreeDataProvider
  | Register registry ExtensionContext
  | RefreshUIComponents
  | OutputChannelShow LogOutputChannel
  | ShowInformationMessage string "string list"
  | ExecuteCommand string
  | Dispose Disposable

datatype console_line = Line string | LineWithEvent string ConfigurationChangeEvent

datatype exn = Error string

text \<open>The static fields of the class, the history of external calls and the console.\<close>

record world =
  "context" :: ExtensionContext
  commandDisposables :: "Disposable list"
  viewDisposables :: "Disposable list"
  lsClient :: LSClient
  outputChannel :: LogOutputChannel
  serverId :: string
  serverName :: string
  viewsAndCommandsSetup :: bool
  calls :: "call list"
  console :: "console_line list"

text \<open>
  The environment. Each member but the last reads the history of the calls made before.
  \<open>checkIfConfigurationChanged\<close> is the function of that name in \<^verbatim>\<open>common/settings\<close>.
\<close>

record env =
  throws :: "call list \<Rightarrow> call \<Rightarrow> exn option"
  sets_ready :: "call list \<Rightarrow> call \<Rightarrow> bool option"
  interpreterDetails :: "call list \<Rightarrow> IInterpreterDetails"
  selected :: "call list \<Rightarrow> js_string"
  checkIfConfigurationChanged :: "ConfigurationChangeEvent \<Rightarrow> string \<Rightarrow> bool"

type_synonym 'a io = "world \<Rightarrow> (exn + 'a) \<times> world"

subsection \<open>Sequencing, exceptions and external calls\<close>

definition return_io :: "'a \<Rightarrow> 'a io" where
  "return_io a w = (Inr a, w)"

text \<open>\<^verbatim>\<open>a; b\<close> and \<^verbatim>\<open>await a; b\<close>: a throw of \<open>a\<close> skips \<open>b\<close>, and keeps the state \<open>a\<close> left.\<close>

definition bind_io :: "'a io \<Rightarrow> ('a \<Rightarrow> 'b io) \<Rightarrow> 'b io" where
  "bind_io m f w = (case m w of (Inl e, w') \<Rightarrow> (Inl e, w') | (Inr a, w') \<Rightarrow> f a w')"

definition then_io :: "'a io \<Rightarrow> 'b io \<Rightarrow> 'b io" where
  "then_io m n = bind_io m (\<lambda>_. n)"

text \<open>An assignment to a field.\<close>

definition modify :: "(world \<Rightarrow> world) \<Rightarrow> unit io" where
  "modify f w = (Inr (), f w)"

text \<open>\<^verbatim>\<open>xs.forEach(f)\<close>, in the order of the array; a throw of \<open>f\<close> ends the iteration.\<close>

fun forEach :: "('a \<Rightarrow> unit io) \<Rightarrow> 'a list \<Rightarrow> unit io" where
  "forEach f [] w = (Inr (), w)"
| "forEach f (x # xs) w =
     (case f x w of (Inl e, w') \<Rightarrow> (Inl e, w') | (Inr _, w') \<Rightarrow> forEach f xs w')"

definition console_log :: "console_line \<Rightarrow> unit io" where
  "console_log l w = (Inr (), w\<lparr>console := console w @ [l]\<rparr>)"

text \<open>
  An external call: it is recorded, the environment may write \<^verbatim>\<open>isZenMLReady\<close>, and the
  call returns or throws as the environment says.
\<close>

definition after_call :: "env \<Rightarrow> call \<Rightarrow> world \<Rightarrow> world" where
  "after_call E c w =
     w\<lparr>calls := calls w @ [c],
       lsClient := (lsClient w)\<lparr>isZenMLReady :=
         (case sets_ready E (calls w) c of None \<Rightarrow> isZenMLReady (lsClient w) | Some b \<Rightarrow> b)\<rparr>\<rparr>"

definition call_ext :: "env \<Rightarrow> call \<Rightarrow> unit io" where
  "call_ext E c w =
     (case throws E (calls w) c of
        Some e \<Rightarrow> (Inl e, after_call E c w)
      | None \<Rightarrow> (Inr (), after_call E c w))"

text \<open>A call whose promise is not awaited: a rejection is not seen by the caller.\<close>

definition call_unawaited :: "env \<Rightarrow> call \<Rightarrow> unit io" where
  "call_unawaited E c w = (Inr (), snd (call_ext E c w))"

definition getInterpreterDetails :: "env \<Rightarrow> IInterpreterDetails io" where
  "getInterpreterDetails E w =
     bind_io (call_ext E GetInterpreterDetails) (\<lambda>_. return_io (interpreterDetails E (calls w))) w"

definition showInformationMessage :: "env \<Rightarrow> string \<Rightarrow> string list \<Rightarrow> js_string io" where
  "showInformationMessage E msg items w =
     bind_io (call_ext E (ShowInformationMessage msg items)) (\<lambda>_. return_io (selected E (calls w))) w"

definition runServer :: "env \<Rightarrow> unit io" where
  "runServer E w =
     call_ext E (RunServer (serverId w) (serverName w) (outputChannel w) (lsClient w)) w"

text \<open>\<^verbatim>\<open>xs[0]\<close>: \<^verbatim>\<open>undefined\<close> on the empty array.\<close>

definition first_element :: "string list \<Rightarrow> js_string" where
  "first_element xs = (case xs of [] \<Rightarrow> None | x # _ \<Rightarrow> Some x)"

subsection \<open>The operations of the class\<close>

definition updateGlobalSettings :: "env \<Rightarrow> js_string \<Rightarrow> unit io" where
  "updateGlobalSettings E pythonPath =
     then_io (call_ext E (UpdateDefaultPythonInterpreterPath pythonPath))
             (call_ext E (UpdateWorkspaceInterpreterSettings pythonPath))"

text \<open>
  The callback that \<^verbatim>\<open>deferredInitialize\<close> hands to \<^verbatim>\<open>setImmediate\<close>. An array is truthy
  also when it is empty, so the first branch is taken whenever \<^verbatim>\<open>path\<close> is defined.
\<close>

definition deferredInitialize :: "env \<Rightarrow> unit io" where
  "deferredInitialize E =
     bind_io (getInterpreterDetails E) (\<lambda>details.
       then_io
         (case path details of
            Some p \<Rightarrow> updateGlobalSettings E (first_element p)
          | None \<Rightarrow> (\<lambda>w.
              then_io (call_ext E (TraceLog ''Setting up Python extension listener.''))
                      (call_ext E (InitializePython (subscriptions (context w)))) w))
         (runServer E))"

definition dataProviders :: "(string \<times> TreeDataProvider) list" where
  "dataProviders =
     [(''zenmlServerView'', ServerDataProvider),
      (''zenmlStackView'', StackDataProvider),
      (''zenmlPipelineView'', PipelineDataProvider),
      (''zenmlEnvironmentView'', EnvironmentDataProvider)]"

definition registries :: "registry list" where
  "registries = [registerServerCommands, registerStackCommands, registerPipelineCommands]"

text \<open>
  The view that \<^verbatim>\<open>createTreeView(viewId, {treeDataProvider: provider})\<close> returns is written
  \<open>TreeView viewId provider\<close>.
\<close>

definition createView :: "env \<Rightarrow> string \<times> TreeDataProvider \<Rightarrow> unit io" where
  "createView E entry =
     (case entry of (viewId, provider) \<Rightarrow>
        then_io (call_ext E (CreateTreeView viewId provider))
                (modify (\<lambda>w. w\<lparr>viewDisposables := viewDisposables w @ [TreeView viewId provider]\<rparr>)))"

definition setupViewsAndCommands :: "env \<Rightarrow> unit io" where
  "setupViewsAndCommands E w =
     (if viewsAndCommandsSetup w then
        then_io (console_log (Line ''Views and commands have already been set up. Refreshing views...''))
                (call_ext E RefreshUIComponents) w
      else
        then_io (call_ext E StatusBarGetInstance)
       (then_io (forEach (createView E) dataProviders)
       (then_io (forEach (\<lambda>register w. call_ext E (Register register (context w)) w) registries)
       (then_io (call_ext E RefreshUIComponents)
                (modify (\<lambda>w. w\<lparr>viewsAndCommandsSetup := True\<rparr>))))) w)"

subsection \<open>The handlers registered by subscribeToCoreEvents\<close>

definition onDidChangePythonInterpreter_handler :: "env \<Rightarrow> IInterpreterDetails \<Rightarrow> unit io" where
  "onDidChangePythonInterpreter_handler E details =
     (case path details of
        Some p \<Rightarrow>
          then_io (console_log (Line ''Interpreter changed, restarting LSP server...''))
         (then_io (updateGlobalSettings E (first_element p))
                  (runServer E))
      | None \<Rightarrow> return_io ())"

definition showLogs_handler :: "env \<Rightarrow> unit io" where
  "showLogs_handler E w = call_ext E (OutputChannelShow (outputChannel w)) w"

definition onDidChangeConfiguration_handler :: "env \<Rightarrow> ConfigurationChangeEvent \<Rightarrow> unit io" where
  "onDidChangeConfiguration_handler E e w =
     (if checkIfConfigurationChanged E e (serverId w) then
        then_io (console_log (LineWithEvent ''Configuration changed, restarting LSP server...'' e))
                (runServer E) w
      else (Inr (), w))"

definition restart_handler :: "env \<Rightarrow> unit io" where
  "restart_handler E = runServer E"

definition interpreter_prompt :: string where
  "interpreter_prompt =
     ''ZenML not found with the current Python interpreter. Would you like to select a different interpreter?''"

definition ready_message :: string where
  "ready_message =
     CHR 0xF0 # CHR 0x9F # CHR 0x9A # CHR 0x80 # '' ZenML installation found. Ready to use.''"

definition cancelled_message :: string where
  "cancelled_message = ''Interpreter selection cancelled. ZenML features will be disabled.''"

text \<open>
  The \<^verbatim>\<open>try\<close> block of \<^verbatim>\<open>promptForPythonInterpreter\<close>. Beside its completion it returns the
  local variable \<^verbatim>\<open>userCancelled\<close>, which the \<^verbatim>\<open>finally\<close> block reads.
\<close>

definition promptForPythonInterpreter_try :: "env \<Rightarrow> world \<Rightarrow> ((exn + unit) \<times> bool) \<times> world" where
  "promptForPythonInterpreter_try E w =
     (case showInformationMessage E interpreter_prompt [''Select Interpreter'', ''Cancel''] w of
        (Inl e, w1) \<Rightarrow> ((Inl e, False), w1)
      | (Inr choice, w1) \<Rightarrow>
          if choice = Some ''Select Interpreter'' then
            (case then_io (call_ext E (ExecuteCommand ''python.setInterpreter''))
                 (then_io (console_log (Line ''Interpreter selection completed.''))
                          (\<lambda>w. call_ext E (ExecuteCommand (serverId w @ ''.restart'')) w)) w1 of
               (r, w2) \<Rightarrow> ((r, False), w2))
          else
            (case console_log (Line ''Interpreter selection cancelled.'') w1 of
               (r, w2) \<Rightarrow> ((r, True), w2)))"

text \<open>
  The \<^verbatim>\<open>finally\<close> block. The recursive call in its first branch is commented out in the
  source; the two messages are shown without \<^verbatim>\<open>await\<close>.
\<close>

definition promptForPythonInterpreter_finally :: "env \<Rightarrow> bool \<Rightarrow> unit io" where
  "promptForPythonInterpreter_finally E userCancelled =
     then_io (modify (\<lambda>w. w\<lparr>lsClient := (lsClient w)\<lparr>interpreterSelectionInProgress := False\<rparr>\<rparr>))
       (\<lambda>w. if \<not> isZenMLReady (lsClient w) \<and> \<not> userCancelled then
              console_log (Line ''ZenML is still not installed. Prompting again...'') w
            else if isZenMLReady (lsClient w) then
              call_unawaited E (ShowInformationMessage ready_message []) w
            else
              call_unawaited E (ShowInformationMessage cancelled_message []) w)"

text \<open>
  \<^verbatim>\<open>try { ... } finally { ... }\<close>: the \<^verbatim>\<open>finally\<close> block runs on every completion of the
  \<^verbatim>\<open>try\<close> block, and the statement completes as the \<^verbatim>\<open>try\<close> block did unless the
  \<^verbatim>\<open>finally\<close> block itself throws.
\<close>

definition promptForPythonInterpreter :: "env \<Rightarrow> unit io" where
  "promptForPythonInterpreter E w =
     (if isZenMLReady (lsClient w) then
        console_log (Line ''ZenML is already installed, no need to prompt for interpreter.'') w
      else
        (case promptForPythonInterpreter_try E
                (w\<lparr>lsClient := (lsClient w)\<lparr>interpreterSelectionInProgress := True\<rparr>\<rparr>) of
           ((r, userCancelled), w') \<Rightarrow>
             (case promptForPythonInterpreter_finally E userCancelled w' of
                (Inl e, w'') \<Rightarrow> (Inl e, w'')
              | (Inr _, w'') \<Rightarrow> (r, w''))))"

definition promptForInterpreter_handler :: "env \<Rightarrow> unit io" where
  "promptForInterpreter_handler E w =
     (if \<not> interpreterSelectionInProgress (lsClient w) \<and> \<not> isZenMLReady (lsClient w)
      then promptForPythonInterpreter E w
      else (Inr (), w))"

text \<open>
  What \<^verbatim>\<open>subscribeToCoreEvents\<close> registers, in the order of the arguments of
  \<^verbatim>\<open>context.subscriptions.push\<close>. The identifiers of the commands are computed when the
  registration is made; the handlers read the fields of the class when they run.
\<close>

datatype registration =
    OnDidChangePythonInterpreter "env \<Rightarrow> IInterpreterDetails \<Rightarrow> unit io"
  | RegisterCommand string "env \<Rightarrow> unit io"
  | OnDidChangeConfiguration "env \<Rightarrow> ConfigurationChangeEvent \<Rightarrow> unit io"
  | RegisterLanguageStatusItem string string string

definition subscribeToCoreEvents :: "world \<Rightarrow> registration list" where
  "subscribeToCoreEvents w =
     [OnDidChangePythonInterpreter onDidChangePythonInterpreter_handler,
      RegisterCommand (serverId w @ ''.showLogs'') showLogs_handler,
      OnDidChangeConfiguration onDidChangeConfiguration_handler,
      RegisterCommand (serverId w @ ''.restart'') restart_handler,
      RegisterCommand ''zenml.promptForInterpreter'' promptForInterpreter_handler,
      RegisterLanguageStatusItem (serverId w) (serverName w) (serverId w @ ''.showLogs'')]"

text \<open>The editor delivers an event to the handlers registered for it, in order.\<close>

datatype event =
    PythonInterpreterChanged IInterpreterDetails
  | ConfigurationChanged ConfigurationChangeEvent
  | CommandExecuted string

fun listener :: "registration \<Rightarrow> event \<Rightarrow> (env \<Rightarrow> unit io) option" where
  "listener (OnDidChangePythonInterpreter h) (PythonInterpreterChanged d) = Some (\<lambda>E. h E d)"
| "listener (OnDidChangeConfiguration h) (ConfigurationChanged e) = Some (\<lambda>E. h E e)"
| "listener (RegisterCommand c h) (CommandExecuted c') = (if c = c' then Some h else None)"
| "listener _ _ = None"

definition deliver :: "env \<Rightarrow> registration list \<Rightarrow> event \<Rightarrow> unit io" where
  "deliver E regs ev = forEach (\<lambda>h. h E) (List.map_filter (\<lambda>r. listener r ev) regs)"

definition deactivateFeatures :: "env \<Rightarrow> unit io" where
  "deactivateFeatures E =
     (\<lambda>w. then_io (forEach (\<lambda>disposable. call_ext E (Dispose disposable)) (commandDisposables w))
         (then_io (modify (\<lambda>w. w\<lparr>commandDisposables := []\<rparr>))
         (\<lambda>w. then_io (forEach (\<lambda>disposable. call_ext E (Dispose disposable)) (viewDisposables w))
             (then_io (modify (\<lambda>w. w\<lparr>viewDisposables := []\<rparr>))
                      (console_log (Line ''Features deactivated due to unmet requirements.''))) w)) w)"

subsection \<open>Notions used in the statements\<close>

text \<open>The calls made between two states of the history.\<close>

definition new_calls :: "world \<Rightarrow> world \<Rightarrow> call list" where
  "new_calls w w' = drop (length (calls w)) (calls w')"

text \<open>The state after a sequence of external calls, none of which threw.\<close>

definition after_calls :: "env \<Rightarrow> call list \<Rightarrow> world \<Rightarrow> world" where
  "after_calls E cs w = foldl (\<lambda>w c. after_call E c w) w cs"

text \<open>
  The fields that the class itself owns are the same in both states: everything but the
  history, the console and \<^verbatim>\<open>isZenMLReady\<close>, which the language client writes.
\<close>

definition unchanged_fields :: "world \<Rightarrow> world \<Rightarrow> bool" where
  "unchanged_fields w w' \<longleftrightarrow>
     context w' = context w \<and>
     commandDisposables w' = commandDisposables w \<and>
     viewDisposables w' = viewDisposables w \<and>
     outputChannel w' = outputChannel w \<and>
     serverId w' = serverId w \<and>
     serverName w' = serverName w \<and>
     viewsAndCommandsSetup w' = viewsAndCommandsSetup w \<and>
     interpreterSelectionInProgress (lsClient w') = interpreterSelectionInProgress (lsClient w)"

fun is_RunServer :: "call \<Rightarrow> bool" where
  "is_RunServer (RunServer _ _ _ _) = True"
| "is_RunServer _ = False"

fun is_settings_update :: "call \<Rightarrow> bool" where
  "is_settings_update (UpdateDefaultPythonInterpreterPath _) = True"
| "is_settings_update (UpdateWorkspaceInterpreterSettings _) = True"
| "is_settings_update _ = False"

text \<open>How often the dialog of \<^verbatim>\<open>promptForPythonInterpreter\<close> was shown.\<close>

definition interpreter_prompts :: "call list \<Rightarrow> nat" where
  "interpreter_prompts cs =
     count_list cs (ShowInformationMessage interpreter_prompt [''Select Interpreter'', ''Cancel''])"

text \<open>An operation that never shows that dialog, whatever the state and the outcome.\<close>

definition shows_no_prompt :: "'a io \<Rightarrow> bool" where
  "shows_no_prompt m \<longleftrightarrow>
     (\<forall>w. interpreter_prompts (calls (snd (m w))) = interpreter_prompts (calls w))"

subsection \<open>Sample environments and states\<close>

text \<open>
  An environment in which every call returns, the interpreter has a path, the user picks
  \<^verbatim>\<open>Select Interpreter\<close>, and a configuration change counts when it names the server.
\<close>

definition env_ok :: env where
  "env_ok =
     \<lparr>throws = (\<lambda>h c. None),
      sets_ready = (\<lambda>h c. None),
      interpreterDetails = (\<lambda>h. \<lparr>path = Some [''/usr/bin/python3'']\<rparr>),
      selected = (\<lambda>h. Some ''Select Interpreter''),
      checkIfConfigurationChanged =
        (\<lambda>e s. case e of ConfigurationChangeEvent sections \<Rightarrow> s \<in> set sections)\<rparr>"

text \<open>The same environment, but every external call throws.\<close>

definition env_rejecting :: env where
  "env_rejecting = env_ok\<lparr>throws := (\<lambda>h c. Some (Error ''rejected''))\<rparr>"

text \<open>The same environment, but no interpreter is known.\<close>

definition env_no_interpreter :: env where
  "env_no_interpreter = env_ok\<lparr>interpreterDetails := (\<lambda>h. \<lparr>path = None\<rparr>)\<rparr>"

definition python3_details :: IInterpreterDetails where
  "python3_details = \<lparr>path = Some [''/usr/bin/python3'']\<rparr>"

text \<open>The state after \<^verbatim>\<open>activate\<close>, with two commands registered by other modules.\<close>

definition world0 :: world where
  "world0 =
     \<lparr>context = \<lparr>subscriptions = []\<rparr>,
      commandDisposables = [Disposable 1, Disposable 2],
      viewDisposables = [],
      lsClient = \<lparr>isZenMLReady = False, interpreterSelectionInProgress = False\<rparr>,
      outputChannel = LogOutputChannel ''ZenML'',
      serverId = ''zenml-python'',
      serverName = ''ZenML'',
      viewsAndCommandsSetup = False,
      calls = [],
      console = []\<rparr>"

text \<open>A state in which the views are set up.\<close>

definition world_set_up :: world where
  "world_set_up =
     world0\<lparr>viewDisposables := [TreeView ''zenmlServerView'' ServerDataProvider,
                               TreeView ''zenmlStackView'' StackDataProvider],
            viewsAndCommandsSetup := True\<rparr>"

text \<open>
  A state in which an interpreter selection is in progress and ZenML has become ready: what
  a second invocation of \<^verbatim>\<open>promptForPythonInterpreter\<close> finds while the first one waits.
\<close>

definition world_selecting :: world where
  "world_selecting =
     world0\<lparr>lsClient := \<lparr>isZenMLReady = True, interpreterSelectionInProgress = True\<rparr>\<rparr>"

text \<open>
  A state in which one disposable occurs twice in \<^verbatim>\<open>commandDisposables\<close> and once in
  \<^verbatim>\<open>viewDisposables\<close>. Both arrays are public static fields that other modules push onto.
\<close>

definition world_duplicates :: world where
  "world_duplicates =
     world0\<lparr>commandDisposables := [Disposable 1, Disposable 1],
            viewDisposables := [Disposable 1]\<rparr>"

section \<open>Properties\<close>

lemma after_call_fields [simp]:
  "calls (after_call E c w) = calls w @ [c]"
  "console (after_call E c w) = console w"
  "context (after_call E c w) = context w"
  "commandDisposables (after_call E c w) = commandDisposables w"
  "viewDisposables (after_call E c w) = viewDisposables w"
  "outputChannel (after_call E c w) = outputChannel w"
  "serverId (after_call E c w) = serverId w"
  "serverName (after_call E c w) = serverName w"
  "viewsAndCommandsSetup (after_call E c w) = viewsAndCommandsSetup w"
  "interpreterSelectionInProgress (lsClient (after_call E c w)) =
     interpreterSelectionInProgress (lsClient w)"
  by (simp_all add: after_call_def)

lemma snd_call_ext [simp]: "snd (call_ext E c w) = after_call E c w"
  by (simp add: call_ext_def split: option.splits)

lemma call_ext_returns:
  "call_ext E c w = (Inr u, w') \<longleftrightarrow> throws E (calls w) c = None \<and> w' = after_call E c w"
  by (auto simp: call_ext_def split: option.splits)

lemma then_io_returns:
  "then_io m n w = (Inr u, w') \<longleftrightarrow> (\<exists>v w1. m w = (Inr v, w1) \<and> n w1 = (Inr u, w'))"
  by (auto simp: then_io_def bind_io_def split: prod.splits sum.splits)

lemma forEach_single: "forEach f [x] w = f x w"
  by (cases "f x w") (auto split: sum.splits)

lemma restart_id_neq_prompt: "''zenml.promptForInterpreter'' \<noteq> s @ ''.restart''"
proof
  assume "''zenml.promptForInterpreter'' = s @ ''.restart''"
  then have "last ''zenml.promptForInterpreter'' = last (s @ ''.restart'')" by (rule arg_cong)
  then show False by simp
qed

lemma deliver_configuration:
  "deliver E (subscribeToCoreEvents w0) (ConfigurationChanged e) w =
     onDidChangeConfiguration_handler E e w"
  by (simp add: deliver_def subscribeToCoreEvents_def forEach_single del: forEach.simps)

lemma deliver_interpreter:
  "deliver E (subscribeToCoreEvents w0) (PythonInterpreterChanged d) w =
     onDidChangePythonInterpreter_handler E d w"
  by (simp add: deliver_def subscribeToCoreEvents_def forEach_single del: forEach.simps)

lemma deliver_restart:
  "deliver E (subscribeToCoreEvents w0) (CommandExecuted (serverId w0 @ ''.restart'')) w =
     restart_handler E w"
  using restart_id_neq_prompt [of "serverId w0"]
  by (simp add: deliver_def subscribeToCoreEvents_def forEach_single del: forEach.simps)

lemma new_calls_append [simp]: "calls w' = calls w @ cs \<Longrightarrow> new_calls w w' = cs"
  by (simp add: new_calls_def)

text \<open>
  C1. A configuration-change event delivered to the handler that \<^verbatim>\<open>subscribeToCoreEvents\<close>
  registers restarts the language server, by one call of \<^verbatim>\<open>runServer\<close> with the stored
  \<^verbatim>\<open>serverId\<close>, \<^verbatim>\<open>serverName\<close>, \<^verbatim>\<open>outputChannel\<close> and \<^verbatim>\<open>lsClient\<close>, if and only if
  \<^verbatim>\<open>checkIfConfigurationChanged(e, serverId)\<close> is true; when it is false the handler returns
  with the state as it was: no call, no line on the console.
\<close>

theorem configuration_change_restarts_iff:
  "deliver E (subscribeToCoreEvents w0) (ConfigurationChanged e) w =
     (if checkIfConfigurationChanged E e (serverId w) then
        call_ext E (RunServer (serverId w) (serverName w) (outputChannel w) (lsClient w))
          (w\<lparr>console := console w @
             [LineWithEvent ''Configuration changed, restarting LSP server...'' e]\<rparr>)
      else (Inr (), w))
   \<and> new_calls w (snd (deliver E (subscribeToCoreEvents w0) (ConfigurationChanged e) w)) =
       (if checkIfConfigurationChanged E e (serverId w)
        then [RunServer (serverId w) (serverName w) (outputChannel w) (lsClient w)]
        else [])"
  unfolding deliver_configuration
  by (simp add: onDidChangeConfiguration_handler_def then_io_def bind_io_def console_log_def
      runServer_def)

theorem configuration_change_restarts_iff_witness:
  "new_calls world0 (snd (deliver env_ok (subscribeToCoreEvents world0)
       (ConfigurationChanged (ConfigurationChangeEvent [''zenml-python''])) world0)) =
     [RunServer ''zenml-python'' ''ZenML'' (LogOutputChannel ''ZenML'')
        \<lparr>isZenMLReady = False, interpreterSelectionInProgress = False\<rparr>]
   \<and> deliver env_ok (subscribeToCoreEvents world0)
       (ConfigurationChanged (ConfigurationChangeEvent [''editor''])) world0 = (Inr (), world0)"
  using configuration_change_restarts_iff
          [of env_ok world0 "ConfigurationChangeEvent [''zenml-python'']" world0]
        configuration_change_restarts_iff
          [of env_ok world0 "ConfigurationChangeEvent [''editor'']" world0]
  by (simp add: env_ok_def world0_def)

text \<open>
  C7. Executing the command registered as \<^verbatim>\<open>${serverId}.restart\<close> is exactly one call of
  \<^verbatim>\<open>runServer\<close> with the stored \<^verbatim>\<open>serverId\<close>, \<^verbatim>\<open>serverName\<close>, \<^verbatim>\<open>outputChannel\<close> and
  \<^verbatim>\<open>lsClient\<close>: no other call is made, no field of the class is written and nothing is
  logged.
\<close>

theorem restart_command_forwards:
  "deliver E (subscribeToCoreEvents w0) (CommandExecuted (serverId w0 @ ''.restart'')) w =
     call_ext E (RunServer (serverId w) (serverName w) (outputChannel w) (lsClient w)) w
   \<and> new_calls w (snd (deliver E (subscribeToCoreEvents w0)
        (CommandExecuted (serverId w0 @ ''.restart'')) w)) =
       [RunServer (serverId w) (serverName w) (outputChannel w) (lsClient w)]
   \<and> unchanged_fields w (snd (deliver E (subscribeToCoreEvents w0)
        (CommandExecuted (serverId w0 @ ''.restart'')) w))
   \<and> console (snd (deliver E (subscribeToCoreEvents w0)
        (CommandExecuted (serverId w0 @ ''.restart'')) w)) = console w"
  unfolding deliver_restart
  by (simp add: restart_handler_def runServer_def unchanged_fields_def)

theorem restart_command_forwards_witness:
  "new_calls world0 (snd (deliver env_ok (subscribeToCoreEvents world0)
       (CommandExecuted ''zenml-python.restart'') world0)) =
     [RunServer ''zenml-python'' ''ZenML'' (LogOutputChannel ''ZenML'')
        \<lparr>isZenMLReady = False, interpreterSelectionInProgress = False\<rparr>]"
  using restart_command_forwards [of env_ok world0 world0]
  by (simp add: world0_def)

text \<open>
  C8. A call of \<^verbatim>\<open>setupViewsAndCommands\<close> made when \<^verbatim>\<open>viewsAndCommandsSetup\<close> is true does
  nothing but refresh: its only call is \<^verbatim>\<open>refreshUIComponents\<close> (after a line on the
  console), so no tree view is created and no registry function is run, and no field of the
  class changes, so nothing is pushed onto \<^verbatim>\<open>viewDisposables\<close>.
\<close>

theorem setupViewsAndCommands_again_only_refreshes:
  assumes "viewsAndCommandsSetup w"
  shows "setupViewsAndCommands E w =
           call_ext E RefreshUIComponents
             (w\<lparr>console := console w @
                [Line ''Views and commands have already been set up. Refreshing views...'']\<rparr>)
         \<and> new_calls w (snd (setupViewsAndCommands E w)) = [RefreshUIComponents]
         \<and> unchanged_fields w (snd (setupViewsAndCommands E w))"
  using assms
  by (simp add: setupViewsAndCommands_def then_io_def bind_io_def console_log_def
      unchanged_fields_def)

theorem setupViewsAndCommands_again_only_refreshes_witness:
  "viewsAndCommandsSetup world_set_up
   \<and> new_calls world_set_up (snd (setupViewsAndCommands env_ok world_set_up)) =
       [RefreshUIComponents]
   \<and> viewDisposables (snd (setupViewsAndCommands env_ok world_set_up)) =
       [TreeView ''zenmlServerView'' ServerDataProvider,
        TreeView ''zenmlStackView'' StackDataProvider]"
proof -
  have h: "viewsAndCommandsSetup world_set_up"
    by (simp add: world_set_up_def)
  show ?thesis
    using h setupViewsAndCommands_again_only_refreshes [OF h, of env_ok]
    by (simp add: unchanged_fields_def world_set_up_def)
qed

lemma call_ext_cases:
  "call_ext E c w =
     ((case throws E (calls w) c of Some e \<Rightarrow> Inl e | None \<Rightarrow> Inr ()), after_call E c w)"
  by (simp add: call_ext_def split: option.splits)

lemma after_call_console [simp]:
  "after_call E c (w\<lparr>console := l\<rparr>) = (after_call E c w)\<lparr>console := l\<rparr>"
  by (simp add: after_call_def split: option.splits)

lemmas io_defs =
  then_io_def bind_io_def return_io_def modify_def console_log_def call_ext_def runServer_def
  after_call_def

lemma interpreter_handler_calls:
  "path d = Some p \<Longrightarrow>
   new_calls w (snd (onDidChangePythonInterpreter_handler E d w)) =
     (let u1 = UpdateDefaultPythonInterpreterPath (first_element p);
          u2 = UpdateWorkspaceInterpreterSettings (first_element p)
      in if throws E (calls w) u1 \<noteq> None then [u1]
         else if throws E (calls w @ [u1]) u2 \<noteq> None then [u1, u2]
         else [u1, u2,
               RunServer (serverId w) (serverName w) (outputChannel w)
                 (lsClient (after_calls E [u1, u2] w))])"
  by (auto simp: onDidChangePythonInterpreter_handler_def updateGlobalSettings_def then_io_def
      bind_io_def console_log_def runServer_def call_ext_cases after_calls_def Let_def
      split: option.splits)

lemma interpreter_handler_frame:
  "unchanged_fields w (snd (onDidChangePythonInterpreter_handler E d w))"
  by (auto simp: onDidChangePythonInterpreter_handler_def updateGlobalSettings_def then_io_def
      bind_io_def console_log_def runServer_def call_ext_cases return_io_def unchanged_fields_def
      split: option.splits)

lemma interpreter_handler_absent:
  "path d = None \<Longrightarrow> onDidChangePythonInterpreter_handler E d w = (Inr (), w)"
  by (simp add: onDidChangePythonInterpreter_handler_def return_io_def)

text \<open>
  C2, as stated, fails: the handler of the Python-interpreter change does more than forward
  to \<^verbatim>\<open>runServer\<close>. With a path in the event it first calls
  \<^verbatim>\<open>updateDefaultPythonInterpreterPath\<close> and \<^verbatim>\<open>updateWorkspaceInterpreterSettings\<close>, which
  write the global and the workspace interpreter settings.
\<close>

theorem interpreter_change_updates_settings_counterexample:
  "new_calls world0 (snd (deliver env_ok (subscribeToCoreEvents world0)
       (PythonInterpreterChanged python3_details) world0)) =
     [UpdateDefaultPythonInterpreterPath (Some ''/usr/bin/python3''),
      UpdateWorkspaceInterpreterSettings (Some ''/usr/bin/python3''),
      RunServer ''zenml-python'' ''ZenML'' (LogOutputChannel ''ZenML'')
        \<lparr>isZenMLReady = False, interpreterSelectionInProgress = False\<rparr>]"
  unfolding deliver_interpreter
  by (simp add: onDidChangePythonInterpreter_handler_def updateGlobalSettings_def io_defs
      new_calls_def python3_details_def env_ok_def world0_def first_element_def)

lemma configuration_handler_calls:
  "new_calls w (snd (onDidChangeConfiguration_handler E e w)) =
     (if checkIfConfigurationChanged E e (serverId w)
      then [RunServer (serverId w) (serverName w) (outputChannel w) (lsClient w)]
      else [])"
  by (simp add: onDidChangeConfiguration_handler_def then_io_def bind_io_def console_log_def
      runServer_def new_calls_def)

lemma configuration_handler_frame:
  "unchanged_fields w (snd (onDidChangeConfiguration_handler E e w))"
  by (simp add: onDidChangeConfiguration_handler_def then_io_def bind_io_def console_log_def
      runServer_def call_ext_cases unchanged_fields_def)

lemma configuration_handler_console:
  "console (snd (onDidChangeConfiguration_handler E e w)) =
     console w @
     (if checkIfConfigurationChanged E e (serverId w)
      then [LineWithEvent ''Configuration changed, restarting LSP server...'' e]
      else [])"
  by (simp add: onDidChangeConfiguration_handler_def then_io_def bind_io_def console_log_def
      runServer_def call_ext_cases)

lemma interpreter_handler_console:
  "console (snd (onDidChangePythonInterpreter_handler E d w)) =
     console w @
     (case path d of
        None \<Rightarrow> []
      | Some p \<Rightarrow> [Line ''Interpreter changed, restarting LSP server...''])"
  by (auto simp: onDidChangePythonInterpreter_handler_def updateGlobalSettings_def then_io_def
      bind_io_def console_log_def runServer_def call_ext_cases return_io_def
      split: option.splits)

text \<open>
  C2, amended. Neither the handler of the configuration change nor the handler of the
  Python-interpreter change writes a field of the class. The first evaluates
  \<^verbatim>\<open>checkIfConfigurationChanged(e, serverId)\<close> (a function of the environment, not recorded
  among the calls); when it is false the handler does nothing, and when it is true the
  handler writes one line on the console and makes one external call, \<^verbatim>\<open>runServer\<close>. The
  second does nothing when \<^verbatim>\<open>path\<close> is absent; when \<^verbatim>\<open>path\<close> is present it writes one line
  on the console and calls \<^verbatim>\<open>updateDefaultPythonInterpreterPath\<close>, then
  \<^verbatim>\<open>updateWorkspaceInterpreterSettings\<close>, both with \<^verbatim>\<open>path[0]\<close>, then \<^verbatim>\<open>runServer\<close>, in that
  order, each call being made only if the calls before it returned without throwing. So
  the second handler writes the interpreter settings before it restarts the server, and
  neither handler makes any other external call.
\<close>

theorem event_handlers_frame:
  "unchanged_fields w (snd (deliver E (subscribeToCoreEvents w0) (ConfigurationChanged e) w))
   \<and> new_calls w (snd (deliver E (subscribeToCoreEvents w0) (ConfigurationChanged e) w)) =
       (if checkIfConfigurationChanged E e (serverId w)
        then [RunServer (serverId w) (serverName w) (outputChannel w) (lsClient w)]
        else [])
   \<and> console (snd (deliver E (subscribeToCoreEvents w0) (ConfigurationChanged e) w)) =
       console w @
       (if checkIfConfigurationChanged E e (serverId w)
        then [LineWithEvent ''Configuration changed, restarting LSP server...'' e]
        else [])
   \<and> unchanged_fields w
        (snd (deliver E (subscribeToCoreEvents w0) (PythonInterpreterChanged d) w))
   \<and> new_calls w (snd (deliver E (subscribeToCoreEvents w0) (PythonInterpreterChanged d) w)) =
       (case path d of
          None \<Rightarrow> []
        | Some p \<Rightarrow>
            (let u1 = UpdateDefaultPythonInterpreterPath (first_element p);
                 u2 = UpdateWorkspaceInterpreterSettings (first_element p)
             in if throws E (calls w) u1 \<noteq> None then [u1]
                else if throws E (calls w @ [u1]) u2 \<noteq> None then [u1, u2]
                else [u1, u2,
                      RunServer (serverId w) (serverName w) (outputChannel w)
                        (lsClient (after_calls E [u1, u2] w))]))
   \<and> console (snd (deliver E (subscribeToCoreEvents w0) (PythonInterpreterChanged d) w)) =
       console w @
       (case path d of
          None \<Rightarrow> []
        | Some p \<Rightarrow> [Line ''Interpreter changed, restarting LSP server...''])
   \<and> (\<forall>c \<in> set (new_calls w
          (snd (deliver E (subscribeToCoreEvents w0) (ConfigurationChanged e) w))).
        is_RunServer c)
   \<and> (\<forall>c \<in> set (new_calls w
          (snd (deliver E (subscribeToCoreEvents w0) (PythonInterpreterChanged d) w))).
        is_settings_update c \<or> is_RunServer c)"
proof -
  have int_calls:
    "new_calls w (snd (onDidChangePythonInterpreter_handler E d w)) =
       (case path d of
          None \<Rightarrow> []
        | Some p \<Rightarrow>
            (let u1 = UpdateDefaultPythonInterpreterPath (first_element p);
                 u2 = UpdateWorkspaceInterpreterSettings (first_element p)
             in if throws E (calls w) u1 \<noteq> None then [u1]
                else if throws E (calls w @ [u1]) u2 \<noteq> None then [u1, u2]
                else [u1, u2,
                      RunServer (serverId w) (serverName w) (outputChannel w)
                        (lsClient (after_calls E [u1, u2] w))]))"
  proof (cases "path d")
    case None
    then show ?thesis
      by (simp add: interpreter_handler_absent new_calls_def)
  next
    case (Some p)
    then show ?thesis
      by (simp add: interpreter_handler_calls)
  qed
  have cfg_bound: "\<forall>c \<in> set (new_calls w (snd (onDidChangeConfiguration_handler E e w))).
      is_RunServer c"
    by (simp add: configuration_handler_calls)
  have int_bound: "\<forall>c \<in> set (new_calls w (snd (onDidChangePythonInterpreter_handler E d w))).
      is_settings_update c \<or> is_RunServer c"
    unfolding int_calls by (cases "path d") (simp_all add: Let_def)
  show ?thesis
    unfolding deliver_configuration deliver_interpreter
    by (intro conjI configuration_handler_frame configuration_handler_calls
        configuration_handler_console interpreter_handler_frame int_calls
        interpreter_handler_console cfg_bound int_bound)
qed

theorem event_handlers_frame_witness:
  "unchanged_fields world0 (snd (deliver env_ok (subscribeToCoreEvents world0)
       (PythonInterpreterChanged python3_details) world0))
   \<and> new_calls world0 (snd (deliver env_ok (subscribeToCoreEvents world0)
        (PythonInterpreterChanged python3_details) world0)) =
       [UpdateDefaultPythonInterpreterPath (Some ''/usr/bin/python3''),
        UpdateWorkspaceInterpreterSettings (Some ''/usr/bin/python3''),
        RunServer ''zenml-python'' ''ZenML'' (LogOutputChannel ''ZenML'')
          \<lparr>isZenMLReady = False, interpreterSelectionInProgress = False\<rparr>]
   \<and> new_calls world0 (snd (deliver env_rejecting (subscribeToCoreEvents world0)
        (PythonInterpreterChanged python3_details) world0)) =
       [UpdateDefaultPythonInterpreterPath (Some ''/usr/bin/python3'')]
   \<and> new_calls world0 (snd (deliver env_ok (subscribeToCoreEvents world0)
        (ConfigurationChanged (ConfigurationChangeEvent [''zenml-python''])) world0)) =
       [RunServer ''zenml-python'' ''ZenML'' (LogOutputChannel ''ZenML'')
          \<lparr>isZenMLReady = False, interpreterSelectionInProgress = False\<rparr>]
   \<and> new_calls world0 (snd (deliver env_ok (subscribeToCoreEvents world0)
        (ConfigurationChanged (ConfigurationChangeEvent [''editor''])) world0)) = []
   \<and> is_settings_update (UpdateDefaultPythonInterpreterPath (Some ''/usr/bin/python3''))
   \<and> is_RunServer (RunServer ''zenml-python'' ''ZenML'' (LogOutputChannel ''ZenML'')
        \<lparr>isZenMLReady = False, interpreterSelectionInProgress = False\<rparr>)"
  using event_handlers_frame [of world0 env_ok world0
          "ConfigurationChangeEvent [''zenml-python'']" python3_details]
        event_handlers_frame [of world0 env_ok world0
          "ConfigurationChangeEvent [''editor'']" python3_details]
        event_handlers_frame [of world0 env_rejecting world0
          "ConfigurationChangeEvent [''editor'']" python3_details]
  by (simp add: env_rejecting_def env_ok_def world0_def python3_details_def first_element_def
      after_calls_def after_call_def)

text \<open>
  C3, as stated, fails when an awaited update throws: the handler has no \<^verbatim>\<open>catch\<close>, so
  a rejected \<^verbatim>\<open>updateDefaultPythonInterpreterPath\<close> ends it before the workspace settings
  are updated and before \<^verbatim>\<open>runServer\<close> is called.
\<close>

theorem interpreter_change_update_rejected_counterexample:
  "new_calls world0 (snd (deliver env_rejecting (subscribeToCoreEvents world0)
       (PythonInterpreterChanged python3_details) world0)) =
     [UpdateDefaultPythonInterpreterPath (Some ''/usr/bin/python3'')]"
  unfolding deliver_interpreter
  by (simp add: onDidChangePythonInterpreter_handler_def updateGlobalSettings_def io_defs
      new_calls_def python3_details_def env_rejecting_def env_ok_def world0_def
      first_element_def)

text \<open>
  C3, amended. When \<^verbatim>\<open>path\<close> is absent the handler of the Python-interpreter change does
  nothing. When it is present the handler calls \<^verbatim>\<open>updateDefaultPythonInterpreterPath\<close>, then
  \<^verbatim>\<open>updateWorkspaceInterpreterSettings\<close>, both with \<^verbatim>\<open>path[0]\<close>, then \<^verbatim>\<open>runServer\<close> with the
  stored fields, in that order, each call being made only if the calls before it returned
  without throwing.
\<close>

theorem interpreter_change_updates_then_restarts:
  "(path d = None \<longrightarrow>
      deliver E (subscribeToCoreEvents w0) (PythonInterpreterChanged d) w = (Inr (), w))
   \<and> (\<forall>p. path d = Some p \<longrightarrow>
        new_calls w (snd (deliver E (subscribeToCoreEvents w0) (PythonInterpreterChanged d) w)) =
          (let u1 = UpdateDefaultPythonInterpreterPath (first_element p);
               u2 = UpdateWorkspaceInterpreterSettings (first_element p)
           in if throws E (calls w) u1 \<noteq> None then [u1]
              else if throws E (calls w @ [u1]) u2 \<noteq> None then [u1, u2]
              else [u1, u2,
                    RunServer (serverId w) (serverName w) (outputChannel w)
                      (lsClient (after_calls E [u1, u2] w))]))"
  unfolding deliver_interpreter
  using interpreter_handler_absent interpreter_handler_calls by blast

theorem interpreter_change_updates_then_restarts_witness:
  "path python3_details = Some [''/usr/bin/python3'']
   \<and> new_calls world0 (snd (deliver env_ok (subscribeToCoreEvents world0)
        (PythonInterpreterChanged python3_details) world0)) =
       [UpdateDefaultPythonInterpreterPath (Some ''/usr/bin/python3''),
        UpdateWorkspaceInterpreterSettings (Some ''/usr/bin/python3''),
        RunServer ''zenml-python'' ''ZenML'' (LogOutputChannel ''ZenML'')
          \<lparr>isZenMLReady = False, interpreterSelectionInProgress = False\<rparr>]
   \<and> deliver env_ok (subscribeToCoreEvents world0)
        (PythonInterpreterChanged \<lparr>path = None\<rparr>) world0 = (Inr (), world0)"
proof -
  have p: "path python3_details = Some [''/usr/bin/python3'']"
    by (simp add: python3_details_def)
  have n: "path \<lparr>path = None\<rparr> = None"
    by simp
  show ?thesis
    using p interpreter_change_updates_then_restarts [of python3_details env_ok world0 world0]
      interpreter_change_updates_then_restarts [of "\<lparr>path = None\<rparr>" env_ok world0 world0]
    by (simp add: env_ok_def world0_def first_element_def after_calls_def after_call_def)
qed

text \<open>
  C4, as stated, fails when an awaited call throws: the deferred callback has no
  \<^verbatim>\<open>catch\<close>, so a rejected \<^verbatim>\<open>getInterpreterDetails\<close> ends it without any call of
  \<^verbatim>\<open>runServer\<close>.
\<close>

theorem deferredInitialize_rejected_counterexample:
  "new_calls world0 (snd (deferredInitialize env_rejecting world0)) = [GetInterpreterDetails]"
  by (simp add: deferredInitialize_def getInterpreterDetails_def io_defs new_calls_def
      env_rejecting_def env_ok_def world0_def)

text \<open>
  C4, amended. Deferred initialization calls \<^verbatim>\<open>getInterpreterDetails\<close>; with a path it
  then updates the settings from \<^verbatim>\<open>path[0]\<close>, without one it calls \<^verbatim>\<open>traceLog\<close> and
  \<^verbatim>\<open>initializePython\<close> with the subscriptions of the context. When these calls return
  without throwing, it ends with one call of \<^verbatim>\<open>runServer\<close>, the last call it makes; when one
  of them throws it stops at that call and \<^verbatim>\<open>runServer\<close> is not called.
\<close>

theorem deferredInitialize_runs_server_last:
  "new_calls w (snd (deferredInitialize E w)) =
     (let g = GetInterpreterDetails in
      if throws E (calls w) g \<noteq> None then [g]
      else (case path (interpreterDetails E (calls w)) of
        Some p \<Rightarrow>
          (let u1 = UpdateDefaultPythonInterpreterPath (first_element p);
               u2 = UpdateWorkspaceInterpreterSettings (first_element p)
           in if throws E (calls w @ [g]) u1 \<noteq> None then [g, u1]
              else if throws E (calls w @ [g, u1]) u2 \<noteq> None then [g, u1, u2]
              else [g, u1, u2,
                    RunServer (serverId w) (serverName w) (outputChannel w)
                      (lsClient (after_calls E [g, u1, u2] w))])
      | None \<Rightarrow>
          (let t = TraceLog ''Setting up Python extension listener.'';
               i = InitializePython (subscriptions (context w))
           in if throws E (calls w @ [g]) t \<noteq> None then [g, t]
              else if throws E (calls w @ [g, t]) i \<noteq> None then [g, t, i]
              else [g, t, i,
                    RunServer (serverId w) (serverName w) (outputChannel w)
                      (lsClient (after_calls E [g, t, i] w))])))"
  by (auto simp: deferredInitialize_def getInterpreterDetails_def updateGlobalSettings_def
      then_io_def bind_io_def return_io_def runServer_def call_ext_cases after_calls_def Let_def
      split: option.splits)

theorem deferredInitialize_runs_server_last_witness:
  "new_calls world0 (snd (deferredInitialize env_ok world0)) =
     [GetInterpreterDetails,
      UpdateDefaultPythonInterpreterPath (Some ''/usr/bin/python3''),
      UpdateWorkspaceInterpreterSettings (Some ''/usr/bin/python3''),
      RunServer ''zenml-python'' ''ZenML'' (LogOutputChannel ''ZenML'')
        \<lparr>isZenMLReady = False, interpreterSelectionInProgress = False\<rparr>]
   \<and> new_calls world0 (snd (deferredInitialize env_no_interpreter world0)) =
     [GetInterpreterDetails,
      TraceLog ''Setting up Python extension listener.'',
      InitializePython [],
      RunServer ''zenml-python'' ''ZenML'' (LogOutputChannel ''ZenML'')
        \<lparr>isZenMLReady = False, interpreterSelectionInProgress = False\<rparr>]"
  using deferredInitialize_runs_server_last [of world0 env_ok]
    deferredInitialize_runs_server_last [of world0 env_no_interpreter]
  by (simp add: env_no_interpreter_def env_ok_def world0_def first_element_def after_calls_def
      after_call_def)

text \<open>
  C9, as stated, fails on the early return: the flag is reset in the \<^verbatim>\<open>finally\<close> block
  only, and the return taken when \<^verbatim>\<open>isZenMLReady\<close> is true comes before the \<^verbatim>\<open>try\<close>
  statement. Entered while a selection is in progress, the function returns with the flag
  still true.
\<close>

theorem promptForPythonInterpreter_early_return_counterexample:
  "interpreterSelectionInProgress
     (lsClient (snd (promptForPythonInterpreter env_ok world_selecting))) = True"
  by (simp add: promptForPythonInterpreter_def console_log_def world_selecting_def world0_def)

lemma finally_resets:
  "interpreterSelectionInProgress
     (lsClient (snd (promptForPythonInterpreter_finally E uc w))) = False"
  by (simp add: promptForPythonInterpreter_finally_def then_io_def bind_io_def modify_def
      console_log_def call_unawaited_def)

text \<open>
  C9, amended. When \<^verbatim>\<open>promptForPythonInterpreter\<close> is entered with \<^verbatim>\<open>isZenMLReady\<close> false,
  it leaves \<^verbatim>\<open>interpreterSelectionInProgress\<close> false however it completes, also when the
  dialog or an executed command throws; entered with \<^verbatim>\<open>isZenMLReady\<close> true, it leaves the
  flag as it found it.
\<close>

theorem promptForPythonInterpreter_resets_flag:
  "interpreterSelectionInProgress (lsClient (snd (promptForPythonInterpreter E w))) =
     (isZenMLReady (lsClient w) \<and> interpreterSelectionInProgress (lsClient w))"
proof (cases "isZenMLReady (lsClient w)")
  case True
  then show ?thesis
    by (simp add: promptForPythonInterpreter_def console_log_def)
next
  case False
  obtain r uc w1 where t: "promptForPythonInterpreter_try E
      (w\<lparr>lsClient := (lsClient w)\<lparr>interpreterSelectionInProgress := True\<rparr>\<rparr>) = ((r, uc), w1)"
    by (metis prod.exhaust)
  have "snd (promptForPythonInterpreter E w) = snd (promptForPythonInterpreter_finally E uc w1)"
    using False t by (simp add: promptForPythonInterpreter_def split: prod.splits sum.splits)
  then show ?thesis
    using False by (simp add: finally_resets)
qed

theorem promptForPythonInterpreter_resets_flag_witness:
  "fst (promptForPythonInterpreter env_rejecting world0) = Inl (Error ''rejected'')
   \<and> interpreterSelectionInProgress
       (lsClient (snd (promptForPythonInterpreter env_rejecting world0))) = False
   \<and> interpreterSelectionInProgress
       (lsClient (snd (promptForPythonInterpreter env_ok world0))) = False"
proof -
  have "fst (promptForPythonInterpreter env_rejecting world0) = Inl (Error ''rejected'')"
    by (simp add: promptForPythonInterpreter_def promptForPythonInterpreter_try_def
        promptForPythonInterpreter_finally_def showInformationMessage_def call_unawaited_def
        io_defs env_rejecting_def env_ok_def world0_def)
  then show ?thesis
    using promptForPythonInterpreter_resets_flag [of env_rejecting world0]
      promptForPythonInterpreter_resets_flag [of env_ok world0]
    by (simp add: world0_def)
qed

lemma after_calls_snoc: "after_calls E (cs @ [c]) w = after_call E c (after_calls E cs w)"
  by (simp add: after_calls_def)

lemma after_calls_fields [simp]:
  "calls (after_calls E cs w) = calls w @ cs"
  "console (after_calls E cs w) = console w"
  "context (after_calls E cs w) = context w"
  "commandDisposables (after_calls E cs w) = commandDisposables w"
  "viewDisposables (after_calls E cs w) = viewDisposables w"
  "outputChannel (after_calls E cs w) = outputChannel w"
  "serverId (after_calls E cs w) = serverId w"
  "serverName (after_calls E cs w) = serverName w"
  "viewsAndCommandsSetup (after_calls E cs w) = viewsAndCommandsSetup w"
  "interpreterSelectionInProgress (lsClient (after_calls E cs w)) =
     interpreterSelectionInProgress (lsClient w)"
  by (induction cs rule: rev_induct) (simp_all add: after_calls_snoc, simp_all add: after_calls_def)

lemma after_calls_Cons: "after_calls E (c # cs) w = after_calls E cs (after_call E c w)"
  by (simp add: after_calls_def)

lemma forEach_call_returns:
  "forEach (\<lambda>x. call_ext E (f x)) xs w = (Inr u, w') \<Longrightarrow> w' = after_calls E (map f xs) w"
proof (induction xs arbitrary: w)
  case Nil
  then show ?case by (simp add: after_calls_def)
next
  case (Cons x xs)
  then show ?case
    by (auto simp: call_ext_def after_calls_Cons split: option.splits)
qed

lemma count_list_distinct: "distinct xs \<Longrightarrow> x \<in> set xs \<Longrightarrow> count_list xs x = 1"
  by (induction xs) auto

lemma count_list_map_Dispose: "count_list (map Dispose xs) (Dispose d) = count_list xs d"
  by (induction xs) simp_all

text \<open>
  C10, as stated, fails when a disposable occurs more than once in the two arrays:
  \<^verbatim>\<open>forEach\<close> calls \<^verbatim>\<open>dispose\<close> once for each entry, and nothing removes duplicates. Here
  one disposable, twice in \<^verbatim>\<open>commandDisposables\<close> and once in \<^verbatim>\<open>viewDisposables\<close>, is
  disposed three times by a call that returns.
\<close>

theorem deactivateFeatures_duplicates_counterexample:
  "fst (deactivateFeatures env_ok world_duplicates) = Inr ()
   \<and> count_list (new_calls world_duplicates (snd (deactivateFeatures env_ok world_duplicates)))
        (Dispose (Disposable 1)) = 3"
  by (simp add: deactivateFeatures_def io_defs new_calls_def env_ok_def world_duplicates_def
      world0_def)

text \<open>
  C10, amended. When \<^verbatim>\<open>deactivateFeatures\<close> returns, the calls it made are one \<^verbatim>\<open>dispose\<close> for
  each entry of \<^verbatim>\<open>commandDisposables\<close>, in order, and then one for each entry of
  \<^verbatim>\<open>viewDisposables\<close>, in order, and no other call. So a disposable is disposed as often as
  it occurs in the two arrays: exactly once when the entries of the two arrays are distinct.
  Both arrays are empty, and no other field of the class has changed.
\<close>

theorem deactivateFeatures_disposes_all:
  assumes "deactivateFeatures E w = (Inr (), w')"
  shows "new_calls w w' = map Dispose (commandDisposables w) @ map Dispose (viewDisposables w)
         \<and> count_list (new_calls w w') (Dispose d) =
             count_list (commandDisposables w @ viewDisposables w) d
         \<and> (distinct (commandDisposables w @ viewDisposables w)
               \<and> d \<in> set (commandDisposables w @ viewDisposables w) \<longrightarrow>
             count_list (new_calls w w') (Dispose d) = 1)
         \<and> commandDisposables w' = [] \<and> viewDisposables w' = []
         \<and> context w' = context w
         \<and> outputChannel w' = outputChannel w
         \<and> serverId w' = serverId w
         \<and> serverName w' = serverName w
         \<and> viewsAndCommandsSetup w' = viewsAndCommandsSetup w
         \<and> interpreterSelectionInProgress (lsClient w') =
             interpreterSelectionInProgress (lsClient w)"
proof -
  let ?dispose = "\<lambda>disposable. call_ext E (Dispose disposable)"
  from assms obtain w1 w2 where
    c: "forEach ?dispose (commandDisposables w) w = (Inr (), w1)" and
    v: "forEach ?dispose (viewDisposables (w1\<lparr>commandDisposables := []\<rparr>))
          (w1\<lparr>commandDisposables := []\<rparr>) = (Inr (), w2)" and
    e: "w' = w2\<lparr>viewDisposables := [],
                 console := console w2 @ [Line ''Features deactivated due to unmet requirements.'']\<rparr>"
    by (auto simp: deactivateFeatures_def then_io_returns modify_def console_log_def)
  have w1: "w1 = after_calls E (map Dispose (commandDisposables w)) w"
    using c by (rule forEach_call_returns)
  have w2: "w2 = after_calls E (map Dispose (viewDisposables w)) (w1\<lparr>commandDisposables := []\<rparr>)"
    using forEach_call_returns [OF v] by (simp add: w1)
  have calls: "calls w' = calls w @ map Dispose (commandDisposables w) @ map Dispose (viewDisposables w)"
    by (simp add: e w2 w1)
  have n: "new_calls w w' = map Dispose (commandDisposables w) @ map Dispose (viewDisposables w)"
    using calls by simp
  have k: "count_list (new_calls w w') (Dispose d) =
             count_list (commandDisposables w @ viewDisposables w) d"
    unfolding n by (simp add: count_list_map_Dispose flip: map_append)
  have o: "count_list (new_calls w w') (Dispose d) = 1"
    if "distinct (commandDisposables w @ viewDisposables w)"
      and "d \<in> set (commandDisposables w @ viewDisposables w)"
    using that unfolding k by (rule count_list_distinct)
  show ?thesis
    using n k o by (simp add: e w2 w1)
qed

theorem deactivateFeatures_disposes_all_witness:
  "deactivateFeatures env_ok world_set_up =
     (Inr (), snd (deactivateFeatures env_ok world_set_up))
   \<and> new_calls world_set_up (snd (deactivateFeatures env_ok world_set_up)) =
       [Dispose (Disposable 1), Dispose (Disposable 2),
        Dispose (TreeView ''zenmlServerView'' ServerDataProvider),
        Dispose (TreeView ''zenmlStackView'' StackDataProvider)]
   \<and> distinct (commandDisposables world_set_up @ viewDisposables world_set_up)
   \<and> Disposable 2 \<in> set (commandDisposables world_set_up @ viewDisposables world_set_up)
   \<and> count_list (new_calls world_set_up (snd (deactivateFeatures env_ok world_set_up)))
        (Dispose (Disposable 2)) = 1
   \<and> commandDisposables (snd (deactivateFeatures env_ok world_set_up)) = []
   \<and> viewDisposables (snd (deactivateFeatures env_ok world_set_up)) = []"
proof -
  define w' where "w' = snd (deactivateFeatures env_ok world_set_up)"
  have "fst (deactivateFeatures env_ok world_set_up) = Inr ()"
    by (simp add: deactivateFeatures_def io_defs env_ok_def world_set_up_def world0_def)
  then have h: "deactivateFeatures env_ok world_set_up = (Inr (), w')"
    unfolding w'_def by (metis prod.collapse)
  have c: "commandDisposables world_set_up = [Disposable 1, Disposable 2]"
    and v: "viewDisposables world_set_up =
        [TreeView ''zenmlServerView'' ServerDataProvider,
         TreeView ''zenmlStackView'' StackDataProvider]"
    by (simp_all add: world_set_up_def world0_def)
  have dist: "distinct (commandDisposables world_set_up @ viewDisposables world_set_up)"
    and mem: "Disposable 2 \<in> set (commandDisposables world_set_up @ viewDisposables world_set_up)"
    by (simp_all add: c v)
  show ?thesis
    using dist mem deactivateFeatures_disposes_all [OF h, of "Disposable 2"]
    by (simp add: h c v)
qed

lemma forEach_Nil_returns: "forEach f [] w = (Inr u, w') \<longleftrightarrow> w' = w"
  by auto

lemma forEach_Cons_returns:
  "forEach f (x # xs) w = (Inr u, w') \<longleftrightarrow>
     (\<exists>w1. f x w = (Inr (), w1) \<and> forEach f xs w1 = (Inr u, w'))"
  by (auto split: prod.splits sum.splits)

lemma setupViewsAndCommands_flag:
  "viewsAndCommandsSetup (snd (setupViewsAndCommands E w)) \<longleftrightarrow>
     viewsAndCommandsSetup w \<or> fst (setupViewsAndCommands E w) = Inr ()"
  by (simp add: setupViewsAndCommands_def dataProviders_def registries_def createView_def
      then_io_def bind_io_def modify_def console_log_def call_ext_cases split: option.splits)

lemma setupViewsAndCommands_fresh:
  assumes "\<not> viewsAndCommandsSetup w"
    and "setupViewsAndCommands E w = (Inr (), w')"
  shows "new_calls w w' =
           [StatusBarGetInstance,
            CreateTreeView ''zenmlServerView'' ServerDataProvider,
            CreateTreeView ''zenmlStackView'' StackDataProvider,
            CreateTreeView ''zenmlPipelineView'' PipelineDataProvider,
            CreateTreeView ''zenmlEnvironmentView'' EnvironmentDataProvider,
            Register registerServerCommands (context w),
            Register registerStackCommands (context w),
            Register registerPipelineCommands (context w),
            RefreshUIComponents]
         \<and> viewDisposables w' = viewDisposables w @
             [TreeView ''zenmlServerView'' ServerDataProvider,
              TreeView ''zenmlStackView'' StackDataProvider,
              TreeView ''zenmlPipelineView'' PipelineDataProvider,
              TreeView ''zenmlEnvironmentView'' EnvironmentDataProvider]
         \<and> viewsAndCommandsSetup w'"
  using assms
  by (auto simp: setupViewsAndCommands_def dataProviders_def registries_def createView_def
      then_io_returns call_ext_returns forEach_Cons_returns forEach_Nil_returns modify_def
      new_calls_def simp del: forEach.simps)

text \<open>
  C6. The flag \<^verbatim>\<open>viewsAndCommandsSetup\<close> is true after a call of \<^verbatim>\<open>setupViewsAndCommands\<close>
  exactly when it was true before or the call completed; the flag starts false, so the first
  call to complete is a call that starts with the flag false and completes. Such a call has
  instantiated the status bar, created one tree view for each of the four entries of
  \<^verbatim>\<open>dataProviders\<close>, pushed the four views onto \<^verbatim>\<open>viewDisposables\<close>, run the three registry
  functions on the context, refreshed the UI, in this order, and set
  \<^verbatim>\<open>viewsAndCommandsSetup\<close> to true.
\<close>

theorem setupViewsAndCommands_first_call:
  "(viewsAndCommandsSetup (snd (setupViewsAndCommands E w)) \<longleftrightarrow>
      viewsAndCommandsSetup w \<or> fst (setupViewsAndCommands E w) = Inr ())
   \<and> (\<not> viewsAndCommandsSetup w \<and> setupViewsAndCommands E w = (Inr (), w') \<longrightarrow>
        new_calls w w' =
           [StatusBarGetInstance,
            CreateTreeView ''zenmlServerView'' ServerDataProvider,
            CreateTreeView ''zenmlStackView'' StackDataProvider,
            CreateTreeView ''zenmlPipelineView'' PipelineDataProvider,
            CreateTreeView ''zenmlEnvironmentView'' EnvironmentDataProvider,
            Register registerServerCommands (context w),
            Register registerStackCommands (context w),
            Register registerPipelineCommands (context w),
            RefreshUIComponents]
         \<and> viewDisposables w' = viewDisposables w @
             [TreeView ''zenmlServerView'' ServerDataProvider,
              TreeView ''zenmlStackView'' StackDataProvider,
              TreeView ''zenmlPipelineView'' PipelineDataProvider,
              TreeView ''zenmlEnvironmentView'' EnvironmentDataProvider]
         \<and> viewsAndCommandsSetup w')"
  using setupViewsAndCommands_flag [of E w] setupViewsAndCommands_fresh [of w E w']
  by blast

theorem setupViewsAndCommands_first_call_witness:
  "\<not> viewsAndCommandsSetup world0
   \<and> setupViewsAndCommands env_ok world0 = (Inr (), snd (setupViewsAndCommands env_ok world0))
   \<and> new_calls world0 (snd (setupViewsAndCommands env_ok world0)) =
       [StatusBarGetInstance,
        CreateTreeView ''zenmlServerView'' ServerDataProvider,
        CreateTreeView ''zenmlStackView'' StackDataProvider,
        CreateTreeView ''zenmlPipelineView'' PipelineDataProvider,
        CreateTreeView ''zenmlEnvironmentView'' EnvironmentDataProvider,
        Register registerServerCommands \<lparr>subscriptions = []\<rparr>,
        Register registerStackCommands \<lparr>subscriptions = []\<rparr>,
        Register registerPipelineCommands \<lparr>subscriptions = []\<rparr>,
        RefreshUIComponents]
   \<and> viewDisposables (snd (setupViewsAndCommands env_ok world0)) =
       [TreeView ''zenmlServerView'' ServerDataProvider,
        TreeView ''zenmlStackView'' StackDataProvider,
        TreeView ''zenmlPipelineView'' PipelineDataProvider,
        TreeView ''zenmlEnvironmentView'' EnvironmentDataProvider]
   \<and> viewsAndCommandsSetup (snd (setupViewsAndCommands env_ok world0))"
proof -
  define w' where "w' = snd (setupViewsAndCommands env_ok world0)"
  have f: "\<not> viewsAndCommandsSetup world0"
    by (simp add: world0_def)
  have c: "context world0 = \<lparr>subscriptions = []\<rparr>" and v: "viewDisposables world0 = []"
    by (simp_all add: world0_def)
  have "fst (setupViewsAndCommands env_ok world0) = Inr ()"
    by (simp add: setupViewsAndCommands_def dataProviders_def registries_def createView_def
        io_defs env_ok_def world0_def)
  then have h: "setupViewsAndCommands env_ok world0 = (Inr (), w')"
    unfolding w'_def by (metis prod.collapse)
  have "new_calls world0 w' =
           [StatusBarGetInstance,
            CreateTreeView ''zenmlServerView'' ServerDataProvider,
            CreateTreeView ''zenmlStackView'' StackDataProvider,
            CreateTreeView ''zenmlPipelineView'' PipelineDataProvider,
            CreateTreeView ''zenmlEnvironmentView'' EnvironmentDataProvider,
            Register registerServerCommands (context world0),
            Register registerStackCommands (context world0),
            Register registerPipelineCommands (context world0),
            RefreshUIComponents]
         \<and> viewDisposables w' = viewDisposables world0 @
             [TreeView ''zenmlServerView'' ServerDataProvider,
              TreeView ''zenmlStackView'' StackDataProvider,
              TreeView ''zenmlPipelineView'' PipelineDataProvider,
              TreeView ''zenmlEnvironmentView'' EnvironmentDataProvider]
         \<and> viewsAndCommandsSetup w'"
    using f h setupViewsAndCommands_first_call [of env_ok world0 w'] by blast
  then show ?thesis
    using f by (simp add: h c v)
qed

lemma interpreter_prompts_snoc:
  "interpreter_prompts (cs @ [c]) =
     interpreter_prompts cs +
     (if c = ShowInformationMessage interpreter_prompt [''Select Interpreter'', ''Cancel'']
      then 1 else 0)"
  by (induction cs) (auto simp: interpreter_prompts_def)

lemma shows_no_prompt_call:
  "c \<noteq> ShowInformationMessage interpreter_prompt [''Select Interpreter'', ''Cancel''] \<Longrightarrow>
   shows_no_prompt (call_ext E c)"
  by (simp add: shows_no_prompt_def interpreter_prompts_snoc)

lemma shows_no_prompt_bind:
  "shows_no_prompt m \<Longrightarrow> (\<And>a. shows_no_prompt (f a)) \<Longrightarrow> shows_no_prompt (bind_io m f)"
  unfolding shows_no_prompt_def bind_io_def
  by (auto split: prod.splits sum.splits) (metis snd_conv)+

lemma shows_no_prompt_then:
  "shows_no_prompt m \<Longrightarrow> shows_no_prompt n \<Longrightarrow> shows_no_prompt (then_io m n)"
  by (simp add: then_io_def shows_no_prompt_bind)

lemma shows_no_prompt_modify:
  "(\<And>w. calls (f w) = calls w) \<Longrightarrow> shows_no_prompt (modify f)"
  by (simp add: shows_no_prompt_def modify_def)

lemma shows_no_prompt_console_log: "shows_no_prompt (console_log l)"
  by (simp add: shows_no_prompt_def console_log_def)

lemma shows_no_prompt_return: "shows_no_prompt (return_io a)"
  by (simp add: shows_no_prompt_def return_io_def)

lemma shows_no_prompt_reading: "(\<And>v. shows_no_prompt (f v)) \<Longrightarrow> shows_no_prompt (\<lambda>w. f w w)"
  by (simp add: shows_no_prompt_def)

lemma shows_no_prompt_forEach:
  assumes "\<And>x. shows_no_prompt (f x)"
  shows "shows_no_prompt (forEach f xs)"
  unfolding shows_no_prompt_def
proof (intro allI)
  fix w
  show "interpreter_prompts (calls (snd (forEach f xs w))) = interpreter_prompts (calls w)"
  proof (induction xs arbitrary: w)
    case Nil
    show ?case by simp
  next
    case (Cons x xs)
    have step: "interpreter_prompts (calls (snd (f x w))) = interpreter_prompts (calls w)"
      using assms by (simp add: shows_no_prompt_def)
    show ?case
    proof (cases "f x w")
      case (Pair r w1)
      with step Cons.IH [of w1] show ?thesis
        by (cases r) simp_all
    qed
  qed
qed

lemmas shows_no_prompt_intros =
  shows_no_prompt_then shows_no_prompt_bind shows_no_prompt_call shows_no_prompt_modify
  shows_no_prompt_console_log shows_no_prompt_return shows_no_prompt_forEach

lemma runServer_no_prompt: "shows_no_prompt (runServer E)"
  unfolding runServer_def
  by (rule shows_no_prompt_reading) (simp add: shows_no_prompt_call)

lemma updateGlobalSettings_no_prompt: "shows_no_prompt (updateGlobalSettings E p)"
  unfolding updateGlobalSettings_def
  by (intro shows_no_prompt_intros) simp_all

lemma interpreter_handler_no_prompt:
  "shows_no_prompt (onDidChangePythonInterpreter_handler E d)"
  unfolding onDidChangePythonInterpreter_handler_def
  by (cases "path d")
    (auto intro!: shows_no_prompt_intros runServer_no_prompt updateGlobalSettings_no_prompt)

lemma configuration_handler_no_prompt:
  "shows_no_prompt (onDidChangeConfiguration_handler E e)"
  by (simp add: shows_no_prompt_def onDidChangeConfiguration_handler_def then_io_def bind_io_def
      console_log_def runServer_def interpreter_prompts_snoc)

lemma showLogs_no_prompt: "shows_no_prompt (showLogs_handler E)"
  by (simp add: shows_no_prompt_def showLogs_handler_def interpreter_prompts_snoc)

lemma deferredInitialize_no_prompt: "shows_no_prompt (deferredInitialize E)"
proof -
  have g: "shows_no_prompt (getInterpreterDetails E)"
    by (simp add: shows_no_prompt_def getInterpreterDetails_def bind_io_def return_io_def
        call_ext_cases interpreter_prompts_snoc split: option.splits)
  have b: "shows_no_prompt (case path d of
            Some p \<Rightarrow> updateGlobalSettings E (first_element p)
          | None \<Rightarrow> (\<lambda>w.
              then_io (call_ext E (TraceLog ''Setting up Python extension listener.''))
                      (call_ext E (InitializePython (subscriptions (context w)))) w))" for d
  proof (cases "path d")
    case None
    have "shows_no_prompt (\<lambda>w.
              then_io (call_ext E (TraceLog ''Setting up Python extension listener.''))
                      (call_ext E (InitializePython (subscriptions (context w)))) w)"
      by (rule shows_no_prompt_reading) (intro shows_no_prompt_intros; simp)
    with None show ?thesis by simp
  next
    case (Some p)
    then show ?thesis by (simp add: updateGlobalSettings_no_prompt)
  qed
  show ?thesis
    unfolding deferredInitialize_def
    by (intro shows_no_prompt_bind shows_no_prompt_then g b runServer_no_prompt)
qed

lemma createView_no_prompt: "shows_no_prompt (createView E entry)"
  unfolding createView_def
  by (cases entry) (auto intro!: shows_no_prompt_intros)

lemma setupViewsAndCommands_no_prompt: "shows_no_prompt (setupViewsAndCommands E)"
proof -
  have r: "shows_no_prompt (\<lambda>w. call_ext E (Register register (context w)) w)" for register
    by (rule shows_no_prompt_reading) (simp add: shows_no_prompt_call)
  have a: "shows_no_prompt
      (then_io (console_log (Line ''Views and commands have already been set up. Refreshing views...''))
                (call_ext E RefreshUIComponents))"
    by (intro shows_no_prompt_intros) simp
  have b: "shows_no_prompt
       (then_io (call_ext E StatusBarGetInstance)
       (then_io (forEach (createView E) dataProviders)
       (then_io (forEach (\<lambda>register w. call_ext E (Register register (context w)) w) registries)
       (then_io (call_ext E RefreshUIComponents)
                (modify (\<lambda>w. w\<lparr>viewsAndCommandsSetup := True\<rparr>))))))"
    by (intro shows_no_prompt_then shows_no_prompt_forEach createView_no_prompt r
        shows_no_prompt_call shows_no_prompt_modify) simp_all
  show ?thesis
    using a b by (simp add: shows_no_prompt_def setupViewsAndCommands_def)
qed

lemma deactivateFeatures_no_prompt: "shows_no_prompt (deactivateFeatures E)"
proof -
  have d: "shows_no_prompt (forEach (\<lambda>disposable. call_ext E (Dispose disposable)) xs)" for xs
    by (intro shows_no_prompt_forEach shows_no_prompt_call) simp
  have inner: "shows_no_prompt (\<lambda>w.
      then_io (forEach (\<lambda>disposable. call_ext E (Dispose disposable)) (viewDisposables w))
             (then_io (modify (\<lambda>w. w\<lparr>viewDisposables := []\<rparr>))
                      (console_log (Line ''Features deactivated due to unmet requirements.''))) w)"
    by (rule shows_no_prompt_reading)
      (intro shows_no_prompt_then d shows_no_prompt_modify shows_no_prompt_console_log, simp)
  show ?thesis
    unfolding deactivateFeatures_def
    by (rule shows_no_prompt_reading)
      (intro shows_no_prompt_then d inner shows_no_prompt_modify, simp)
qed

lemma interpreter_prompts_simps:
  "interpreter_prompts [] = 0"
  "interpreter_prompts (c # cs) =
     (if c = ShowInformationMessage interpreter_prompt [''Select Interpreter'', ''Cancel'']
      then 1 else 0) + interpreter_prompts cs"
  "interpreter_prompts (xs @ ys) = interpreter_prompts xs + interpreter_prompts ys"
  by (induction xs) (auto simp: interpreter_prompts_def)

lemma prompt_try_once:
  "interpreter_prompts (calls (snd (promptForPythonInterpreter_try E w))) =
     interpreter_prompts (calls w) + 1"
  by (auto simp: promptForPythonInterpreter_try_def showInformationMessage_def
      then_io_def bind_io_def return_io_def console_log_def call_ext_cases
      interpreter_prompts_simps split: option.splits)

lemma prompt_finally_no_prompt:
  "interpreter_prompts (calls (snd (promptForPythonInterpreter_finally E uc w))) =
     interpreter_prompts (calls w)"
  by (simp add: promptForPythonInterpreter_finally_def then_io_def bind_io_def modify_def
      console_log_def call_unawaited_def interpreter_prompts_simps)

lemma prompt_once:
  "interpreter_prompts (calls (snd (promptForPythonInterpreter E w))) =
     interpreter_prompts (calls w) + (if isZenMLReady (lsClient w) then 0 else 1)"
proof (cases "isZenMLReady (lsClient w)")
  case True
  then show ?thesis
    by (simp add: promptForPythonInterpreter_def console_log_def)
next
  case False
  obtain r uc w1 where t: "promptForPythonInterpreter_try E
      (w\<lparr>lsClient := (lsClient w)\<lparr>interpreterSelectionInProgress := True\<rparr>\<rparr>) = ((r, uc), w1)"
    by (metis prod.exhaust)
  have "snd (promptForPythonInterpreter E w) = snd (promptForPythonInterpreter_finally E uc w1)"
    using False t by (simp add: promptForPythonInterpreter_def split: prod.splits sum.splits)
  moreover have "interpreter_prompts (calls w1) = interpreter_prompts (calls w) + 1"
    using prompt_try_once [of E "w\<lparr>lsClient := (lsClient w)\<lparr>interpreterSelectionInProgress := True\<rparr>\<rparr>"]
    by (simp add: t)
  ultimately show ?thesis
    using False by (simp add: prompt_finally_no_prompt)
qed

lemma prompt_id_neq_showLogs: "s @ ''.showLogs'' \<noteq> ''zenml.promptForInterpreter''"
proof
  assume "s @ ''.showLogs'' = ''zenml.promptForInterpreter''"
  then have "last (s @ ''.showLogs'') = last ''zenml.promptForInterpreter''" by (rule arg_cong)
  then show False by simp
qed

lemma deliver_prompt:
  "deliver E (subscribeToCoreEvents w0) (CommandExecuted ''zenml.promptForInterpreter'') w =
     promptForInterpreter_handler E w"
  using restart_id_neq_prompt [of "serverId w0"] prompt_id_neq_showLogs [of "serverId w0"]
  by (simp add: deliver_def subscribeToCoreEvents_def forEach_single del: forEach.simps)

lemma deliver_showLogs:
  "deliver E (subscribeToCoreEvents w0) (CommandExecuted (serverId w0 @ ''.showLogs'')) w =
     showLogs_handler E w"
  using prompt_id_neq_showLogs [of "serverId w0"]
  by (simp add: deliver_def subscribeToCoreEvents_def forEach_single del: forEach.simps)

text \<open>
  C5. The interpreter prompt is never retried. Every invocation of
  \<^verbatim>\<open>promptForPythonInterpreter\<close> that passes the \<^verbatim>\<open>isZenMLReady\<close> test shows its dialog
  first, so a second invocation from inside would show the dialog a second time. One
  invocation shows it exactly once, whatever the user picks and whether or not ZenML is
  ready afterwards; the command \<^verbatim>\<open>zenml.promptForInterpreter\<close> shows it at most once; and no
  other handler or operation of the class shows it at all.
\<close>

theorem prompt_never_retried:
  "interpreter_prompts (calls (snd (promptForPythonInterpreter E w))) =
     interpreter_prompts (calls w) + (if isZenMLReady (lsClient w) then 0 else 1)
   \<and> interpreter_prompts (calls (snd (deliver E (subscribeToCoreEvents w0)
        (CommandExecuted ''zenml.promptForInterpreter'') w))) =
       interpreter_prompts (calls w) +
       (if \<not> interpreterSelectionInProgress (lsClient w) \<and> \<not> isZenMLReady (lsClient w)
        then 1 else 0)
   \<and> shows_no_prompt (deliver E (subscribeToCoreEvents w0) (PythonInterpreterChanged d))
   \<and> shows_no_prompt (deliver E (subscribeToCoreEvents w0) (ConfigurationChanged e))
   \<and> shows_no_prompt (deliver E (subscribeToCoreEvents w0)
        (CommandExecuted (serverId w0 @ ''.restart'')))
   \<and> shows_no_prompt (deliver E (subscribeToCoreEvents w0)
        (CommandExecuted (serverId w0 @ ''.showLogs'')))
   \<and> shows_no_prompt (deferredInitialize E)
   \<and> shows_no_prompt (setupViewsAndCommands E)
   \<and> shows_no_prompt (deactivateFeatures E)"
proof -
  have h: "interpreter_prompts (calls (snd (promptForInterpreter_handler E w))) =
       interpreter_prompts (calls w) +
       (if \<not> interpreterSelectionInProgress (lsClient w) \<and> \<not> isZenMLReady (lsClient w)
        then 1 else 0)"
    by (simp add: promptForInterpreter_handler_def prompt_once)
  have i: "shows_no_prompt (deliver E (subscribeToCoreEvents w0) (PythonInterpreterChanged d))"
    using interpreter_handler_no_prompt [of E d]
    by (simp add: shows_no_prompt_def deliver_interpreter)
  have c: "shows_no_prompt (deliver E (subscribeToCoreEvents w0) (ConfigurationChanged e))"
    using configuration_handler_no_prompt [of E e]
    by (simp add: shows_no_prompt_def deliver_configuration)
  have r: "shows_no_prompt (deliver E (subscribeToCoreEvents w0)
        (CommandExecuted (serverId w0 @ ''.restart'')))"
    using runServer_no_prompt [of E]
    by (simp add: shows_no_prompt_def deliver_restart restart_handler_def)
  have s: "shows_no_prompt (deliver E (subscribeToCoreEvents w0)
        (CommandExecuted (serverId w0 @ ''.showLogs'')))"
    using showLogs_no_prompt [of E]
    by (simp add: shows_no_prompt_def deliver_showLogs)
  show ?thesis
    using prompt_once h i c r s deferredInitialize_no_prompt setupViewsAndCommands_no_prompt
      deactivateFeatures_no_prompt
    unfolding deliver_prompt by blast
qed

theorem prompt_never_retried_witness:
  "\<not> isZenMLReady (lsClient (snd (promptForPythonInterpreter env_ok world0)))
   \<and> new_calls world0 (snd (promptForPythonInterpreter env_ok world0)) =
       [ShowInformationMessage interpreter_prompt [''Select Interpreter'', ''Cancel''],
        ExecuteCommand ''python.setInterpreter'',
        ExecuteCommand ''zenml-python.restart'']
   \<and> interpreter_prompts (calls (snd (promptForPythonInterpreter env_ok world0))) = 1"
proof -
  have e: "promptForPythonInterpreter env_ok world0 =
      (Inr (), world0\<lparr>calls :=
          [ShowInformationMessage interpreter_prompt [''Select Interpreter'', ''Cancel''],
           ExecuteCommand ''python.setInterpreter'',
           ExecuteCommand ''zenml-python.restart''],
        console := [Line ''Interpreter selection completed.'',
                    Line ''ZenML is still not installed. Prompting again...'']\<rparr>)"
    by (simp add: promptForPythonInterpreter_def promptForPythonInterpreter_try_def
        promptForPythonInterpreter_finally_def showInformationMessage_def call_unawaited_def
        io_defs env_ok_def world0_def)
  show ?thesis
    using prompt_never_retried [of env_ok world0 world0 python3_details
        "ConfigurationChangeEvent []"]
    by (simp add: e new_calls_def) (simp add: world0_def interpreter_prompts_def)
qed

end
